theory Spec2Isabelle
  imports Main
begin

section \<open>The data ingestion module\<close>

text \<open>
  The module \<^verbatim>\<open>data_ingestion.py\<close> has three functions, \<^verbatim>\<open>create_db_engine\<close>,
  \<^verbatim>\<open>query_data\<close> and \<^verbatim>\<open>read_from_web_CSV\<close>. Each one calls SQLAlchemy or pandas inside a
  \<^verbatim>\<open>try\<close> statement, logs one message and returns the value, or logs in an \<^verbatim>\<open>except\<close>
  clause and raises.

  The embedding makes three things explicit.
  \<^item> An exception is a value: a call returns \<open>Inl e\<close> when it raises \<open>e\<close> and \<open>Inr v\<close> when
    it returns \<open>v\<close>.
  \<^item> The effects of a call are the list of events it emits, in order: log records, and
    the opening and the release of database connections.
  \<^item> The library functions the module calls (\<^verbatim>\<open>create_engine\<close>, \<^verbatim>\<open>Engine.connect\<close>,
    \<^verbatim>\<open>pd.read_sql_query\<close>, \<^verbatim>\<open>pd.read_csv\<close>) are fields of a record \<open>world\<close>: what they
    return or raise depends on the database and the network, so it is a parameter.
\<close>

subsection \<open>Exceptions\<close>

text \<open>
  The classes the \<^verbatim>\<open>except\<close> clauses name, their subclasses that the libraries raise, and
  \<open>Derived name base\<close> for any other class (\<^verbatim>\<open>sqlalchemy.exc.OperationalError\<close>,
  \<^verbatim>\<open>urllib.error.URLError\<close>, ...). \<^verbatim>\<open>pd.errors.EmptyDataError\<close> and \<^verbatim>\<open>pd.errors.ParserError\<close>
  are subclasses of \<^verbatim>\<open>ValueError\<close>, \<^verbatim>\<open>ModuleNotFoundError\<close> of \<^verbatim>\<open>ImportError\<close> and
  \<^verbatim>\<open>UnboundLocalError\<close> of \<^verbatim>\<open>NameError\<close>. Every class here derives from \<^verbatim>\<open>Exception\<close>:
  the signals that do not (\<^verbatim>\<open>KeyboardInterrupt\<close>, \<^verbatim>\<open>SystemExit\<close>, \<^verbatim>\<open>GeneratorExit\<close>) are
  not failures of a call and are outside the model.
\<close>

datatype py_class =
    Exception
  | ImportError
  | ModuleNotFoundError
  | ValueError
  | EmptyDataError
  | ParserError
  | NameError
  | UnboundLocalError
  | Derived string py_class

text \<open>The method resolution order of a class: the class itself, then its bases.\<close>

fun mro :: "py_class \<Rightarrow> py_class list" where
  "mro Exception = [Exception]"
| "mro ImportError = [ImportError, Exception]"
| "mro ModuleNotFoundError = [ModuleNotFoundError, ImportError, Exception]"
| "mro ValueError = [ValueError, Exception]"
| "mro EmptyDataError = [EmptyDataError, ValueError, Exception]"
| "mro ParserError = [ParserError, ValueError, Exception]"
| "mro NameError = [NameError, Exception]"
| "mro UnboundLocalError = [UnboundLocalError, NameError, Exception]"
| "mro (Derived name base) = Derived name base # mro base"

text \<open>
  An exception object: its class, the text \<^verbatim>\<open>str(e)\<close> that the f-strings of the log
  messages insert, and \<^verbatim>\<open>__context__\<close>, the exception that was being handled when this
  one was raised.
\<close>

datatype py_exc = Exc (class_of: py_class) (exc_str: string) (exc_context: "py_exc option")

text \<open>\<^verbatim>\<open>except C\<close> catches \<open>e\<close> when \<^verbatim>\<open>isinstance(e, C)\<close>.\<close>

definition isinstance :: "py_exc \<Rightarrow> py_class \<Rightarrow> bool" where
  "isinstance e c = (c \<in> set (mro (class_of e)))"

subsection \<open>Tables, handles and events\<close>

datatype cell = IntCell int | StrCell string

text \<open>A \<^verbatim>\<open>DataFrame\<close>: the column names and the rows, in order.\<close>

record dataframe =
  columns :: "string list"
  rows :: "cell list list"

text \<open>\<^verbatim>\<open>df.empty\<close> is true when any axis of the frame has length 0.\<close>

definition df_empty :: "dataframe \<Rightarrow> bool" where
  "df_empty df = (columns df = [] \<or> rows df = [])"

text \<open>An engine is an opaque handle made from a database path; a connection is opaque.\<close>

datatype engine = Engine string

datatype connection = Connection nat

datatype level = INFO | ERROR

datatype event =
    Log level string
  | Connected connection
  | Closed connection

text \<open>
  The logger \<^verbatim>\<open>data_ingestion\<close> is configured at level \<^verbatim>\<open>INFO\<close>, so \<^verbatim>\<open>logger.info\<close> and
  \<^verbatim>\<open>logger.error\<close> both emit one record.
\<close>

definition logger_info :: "string \<Rightarrow> event" where
  "logger_info msg = Log INFO msg"

definition logger_error :: "string \<Rightarrow> event" where
  "logger_error msg = Log ERROR msg"

text \<open>The log records among the events of a call, and their levels.\<close>

fun log_lines :: "event list \<Rightarrow> (level \<times> string) list" where
  "log_lines [] = []"
| "log_lines (Log l m # evs) = (l, m) # log_lines evs"
| "log_lines (Connected c # evs) = log_lines evs"
| "log_lines (Closed c # evs) = log_lines evs"

definition log_levels :: "event list \<Rightarrow> level list" where
  "log_levels evs = map fst (log_lines evs)"

text \<open>The connections that a sequence of events leaves open.\<close>

fun open_connections :: "connection list \<Rightarrow> event list \<Rightarrow> connection list" where
  "open_connections cs [] = cs"
| "open_connections cs (Log l m # evs) = open_connections cs evs"
| "open_connections cs (Connected c # evs) = open_connections (c # cs) evs"
| "open_connections cs (Closed c # evs) = open_connections (remove1 c cs) evs"

subsection \<open>The libraries\<close>

text \<open>
  \<open>create_engine w db_path\<close> is \<^verbatim>\<open>create_engine(db_path)\<close>; \<open>connect w engine\<close> is
  \<^verbatim>\<open>engine.connect()\<close>; \<open>read_sql_query w sql_query connection\<close> is
  \<^verbatim>\<open>pd.read_sql_query(text(sql_query), connection)\<close>, the call of \<^verbatim>\<open>text\<close> included;
  \<open>read_csv w URL\<close> is \<^verbatim>\<open>pd.read_csv(URL)\<close>. The \<^verbatim>\<open>with\<close> statement releases the connection
  (\<^verbatim>\<open>Connection.__exit__\<close> calls \<^verbatim>\<open>close\<close>) when its body ends, normally or by an
  exception, and lets the exception pass.
\<close>

record world =
  create_engine :: "string \<Rightarrow> py_exc + engine"
  connect :: "engine \<Rightarrow> py_exc + connection"
  read_sql_query :: "string \<Rightarrow> connection \<Rightarrow> py_exc + dataframe"
  read_csv :: "string \<Rightarrow> py_exc + dataframe"

subsection \<open>create\_db\_engine\<close>

text \<open>
  In the clause \<^verbatim>\<open>except ImportError:\<close> the statement \<^verbatim>\<open>raise e\<close> reads the local name
  \<^verbatim>\<open>e\<close>, which only the clause \<^verbatim>\<open>except Exception as e\<close> binds: it raises
  \<^verbatim>\<open>UnboundLocalError\<close>, with the \<^verbatim>\<open>ImportError\<close> being handled as its context. An
  exception raised inside one \<^verbatim>\<open>except\<close> clause is not caught by a later clause of the
  same \<^verbatim>\<open>try\<close>.
\<close>

definition unbound_local_e :: "py_exc \<Rightarrow> py_exc" where
  "unbound_local_e handled =
     Exc UnboundLocalError
       ''cannot access local variable 'e' where it is not associated with a value''
       (Some handled)"

definition create_db_engine_except :: "py_exc \<Rightarrow> event list \<Rightarrow> (py_exc + engine) \<times> event list" where
  "create_db_engine_except e evs =
     (if isinstance e ImportError then
        (Inl (unbound_local_e e),
         evs @ [logger_error ''SQLAlchemy is required to use this function. Please install it first.''])
      else if isinstance e Exception then
        (Inl e, evs @ [logger_error (''Failed to create database engine. Error: '' @ exc_str e)])
      else (Inl e, evs))"

definition create_db_engine :: "world \<Rightarrow> string \<Rightarrow> (py_exc + engine) \<times> event list" where
  "create_db_engine w db_path =
     (case create_engine w db_path of
        Inl e \<Rightarrow> create_db_engine_except e []
      | Inr engine \<Rightarrow>
          (case connect w engine of
             Inl e \<Rightarrow> create_db_engine_except e []
           | Inr conn \<Rightarrow>
               (Inr engine,
                [Connected conn, Closed conn,
                 logger_info ''Database engine created successfully.''])))"

subsection \<open>query\_data\<close>

definition query_data_except :: "py_exc \<Rightarrow> event list \<Rightarrow> (py_exc + dataframe) \<times> event list" where
  "query_data_except e evs =
     (if isinstance e ValueError then
        (Inl e, evs @ [logger_error (''SQL query failed. Error: '' @ exc_str e)])
      else if isinstance e Exception then
        (Inl e,
         evs @ [logger_error (''An error occurred while querying the database. Error: '' @ exc_str e)])
      else (Inl e, evs))"

definition query_data :: "world \<Rightarrow> engine \<Rightarrow> string \<Rightarrow> (py_exc + dataframe) \<times> event list" where
  "query_data w engine sql_query =
     (case connect w engine of
        Inl e \<Rightarrow> query_data_except e []
      | Inr connection \<Rightarrow>
          (case read_sql_query w sql_query connection of
             Inl e \<Rightarrow> query_data_except e [Connected connection, Closed connection]
           | Inr df \<Rightarrow>
               if df_empty df then
                 (let msg = ''The query returned an empty DataFrame.'' in
                  query_data_except (Exc ValueError msg None)
                    [Connected connection, Closed connection, logger_error msg])
               else
                 (Inr df,
                  [Connected connection, Closed connection,
                   logger_info ''Query executed successfully.''])))"

subsection \<open>read\_from\_web\_CSV\<close>

definition read_from_web_CSV_except :: "py_exc \<Rightarrow> event list \<Rightarrow> (py_exc + dataframe) \<times> event list" where
  "read_from_web_CSV_except e evs =
     (if isinstance e EmptyDataError then
        (Inl e,
         evs @ [logger_error
           ''The URL does not point to a valid CSV file. Please check the URL and try again.''])
      else if isinstance e Exception then
        (Inl e, evs @ [logger_error (''Failed to read CSV from the web. Error: '' @ exc_str e)])
      else (Inl e, evs))"

definition read_from_web_CSV :: "world \<Rightarrow> string \<Rightarrow> (py_exc + dataframe) \<times> event list" where
  "read_from_web_CSV w URL =
     (case read_csv w URL of
        Inr df \<Rightarrow> (Inr df, [logger_info ''CSV file read successfully from the web.''])
      | Inl e \<Rightarrow> read_from_web_CSV_except e [])"

subsection \<open>Views of the events of a call\<close>

text \<open>The events on connections among the events of a call.\<close>

fun connection_events :: "event list \<Rightarrow> event list" where
  "connection_events [] = []"
| "connection_events (Log l m # evs) = connection_events evs"
| "connection_events (Connected c # evs) = Connected c # connection_events evs"
| "connection_events (Closed c # evs) = Closed c # connection_events evs"

text \<open>
  Whether the query runs to its end and its frame is empty: the case in which
  \<open>query_data\<close> itself raises the \<^verbatim>\<open>ValueError\<close>.
\<close>

definition query_yields_empty :: "world \<Rightarrow> engine \<Rightarrow> string \<Rightarrow> bool" where
  "query_yields_empty w engine sql_query =
     (case connect w engine of
        Inl e \<Rightarrow> False
      | Inr connection \<Rightarrow>
          (case read_sql_query w sql_query connection of
             Inl e \<Rightarrow> False
           | Inr df \<Rightarrow> df_empty df))"

subsection \<open>Concrete databases and resources\<close>

definition farm_engine :: engine where
  "farm_engine = Engine ''sqlite:///Maji_Ndogo_farm_survey_small.db''"

definition two_fields :: dataframe where
  "two_fields = \<lparr>columns = [''Field_ID'', ''Elevation''],
                  rows = [[IntCell 1, IntCell 786], [IntCell 2, IntCell 674]]\<rparr>"

definition no_fields :: dataframe where
  "no_fields = \<lparr>columns = [''Field_ID'', ''Elevation''], rows = []\<rparr>"

definition connection_refused :: py_exc where
  "connection_refused =
     Exc (Derived ''URLError'' (Derived ''OSError'' Exception))
       ''<urlopen error [Errno 111] Connection refused>'' None"

text \<open>
  A reachable SQLite file: the query with the condition \<^verbatim>\<open>1=0\<close> selects no row, every
  other query selects two. No web server answers.
\<close>

definition farm_db :: world where
  "farm_db =
     \<lparr>create_engine = (\<lambda>db_path. Inr (Engine db_path)),
      connect = (\<lambda>engine. Inr (Connection 0)),
      read_sql_query = (\<lambda>sql_query connection.
         if sql_query = ''SELECT * FROM geographic_features WHERE 1=0''
         then Inr no_fields else Inr two_fields),
      read_csv = (\<lambda>URL. Inl connection_refused)\<rparr>"

text \<open>SQLAlchemy's class for an error of the database driver.\<close>

definition OperationalError :: py_class where
  "OperationalError =
     Derived ''OperationalError'' (Derived ''DBAPIError'' (Derived ''StatementError''
       (Derived ''SQLAlchemyError'' Exception)))"

definition unable_to_open :: py_exc where
  "unable_to_open =
     Exc OperationalError ''(sqlite3.OperationalError) unable to open database file'' None"

definition no_such_table :: py_exc where
  "no_such_table =
     Exc OperationalError ''(sqlite3.OperationalError) no such table: geographic_feature'' None"

definition could_not_convert :: py_exc where
  "could_not_convert = Exc ValueError ''could not convert string to float: 'n/a' '' None"

text \<open>The database file is in a directory that does not exist: the probe fails.\<close>

definition missing_db :: world where
  "missing_db = farm_db\<lparr>connect := (\<lambda>engine. Inl unable_to_open)\<rparr>"

text \<open>The query names a table that does not exist.\<close>

definition misspelt_db :: world where
  "misspelt_db = farm_db\<lparr>read_sql_query := (\<lambda>sql_query connection. Inl no_such_table)\<rparr>"

text \<open>Reading the rows raises a \<^verbatim>\<open>ValueError\<close> while it converts a column.\<close>

definition coercion_db :: world where
  "coercion_db = farm_db\<lparr>read_sql_query := (\<lambda>sql_query connection. Inl could_not_convert)\<rparr>"

text \<open>PostgreSQL and MySQL paths on a machine without the drivers.\<close>

definition psycopg2_missing :: py_exc where
  "psycopg2_missing =
     Exc ModuleNotFoundError (''No module named 'psycopg2'' @ [CHR 0x27]) None"

definition mysqldb_missing :: py_exc where
  "mysqldb_missing =
     Exc ModuleNotFoundError (''No module named 'MySQLdb'' @ [CHR 0x27]) None"

definition no_drivers :: world where
  "no_drivers =
     farm_db\<lparr>create_engine := (\<lambda>db_path.
        if take 5 db_path = ''mysql'' then Inl mysqldb_missing else Inl psycopg2_missing)\<rparr>"

definition weather :: dataframe where
  "weather = \<lparr>columns = [''Weather_station_ID'', ''Message''],
               rows = [[IntCell 0, StrCell ''clear skies'']]\<rparr>"

definition no_columns :: py_exc where
  "no_columns = Exc EmptyDataError ''No columns to parse from file'' None"

text \<open>
  A reader that finds a table at one URL and in one local file, an empty document at
  another URL, and no server anywhere else.
\<close>

definition web :: world where
  "web =
     farm_db\<lparr>read_csv := (\<lambda>URL.
        if URL = ''https://example.com/Weather_station_data.csv'' then Inr weather
        else if URL = ''data/Weather_station_data.csv'' then Inr weather
        else if URL = ''https://example.com/empty.csv'' then Inl no_columns
        else Inl connection_refused)\<rparr>"

subsection \<open>The CSV reader, as the specification describes it\<close>

text \<open>
  \<^verbatim>\<open>pd.read_csv\<close> belongs to pandas, whose code is not in the repository. The
  specification says what \<open>read_from_web_CSV\<close> expects of it: the resource is downloaded and
  parsed in one step, the columns come from the header row, each data row gives one row
  of the table, the column types are inferred from the data, an empty body is not a CSV
  document, and a malformed row is an error of another kind. The definitions of this
  subsection follow these words; the download is the parameter \<open>fetch\<close>.
\<close>

text \<open>Modelled from the spec: the fields of a line, and the lines of a body, are the
  pieces between separators (\<^verbatim>\<open>pd.read_csv\<close> is missing).\<close>

fun split_on :: "char \<Rightarrow> string \<Rightarrow> string list" where
  "split_on sep [] = [[]]"
| "split_on sep (c # cs) =
     (if c = sep then [] # split_on sep cs
      else (case split_on sep cs of [] \<Rightarrow> [[c]] | f # fs \<Rightarrow> (c # f) # fs))"

text \<open>Modelled from the spec: the records of a body are its lines that are not blank,
  each cut at the commas (\<^verbatim>\<open>pd.read_csv\<close> is missing).\<close>

definition csv_records :: "string \<Rightarrow> string list list" where
  "csv_records body =
     map (split_on CHR '','') (filter (\<lambda>l. l \<noteq> []) (split_on CHR 0x0A body))"

text \<open>Modelled from the spec: the header row is the first record
  (\<^verbatim>\<open>pd.read_csv\<close> is missing).\<close>

definition csv_header :: "string \<Rightarrow> string list" where
  "csv_header body = (case csv_records body of [] \<Rightarrow> [] | header # data \<Rightarrow> header)"

text \<open>Modelled from the spec: the data rows are the records after the header
  (\<^verbatim>\<open>pd.read_csv\<close> is missing).\<close>

definition csv_data :: "string \<Rightarrow> string list list" where
  "csv_data body = (case csv_records body of [] \<Rightarrow> [] | header # data \<Rightarrow> data)"

text \<open>Modelled from the spec: a body is well-formed CSV text when it has a header row and
  every data row has as many fields as the header (\<^verbatim>\<open>pd.read_csv\<close> is missing).\<close>

definition well_formed_csv :: "string \<Rightarrow> bool" where
  "well_formed_csv body =
     (csv_records body \<noteq> []
      \<and> list_all (\<lambda>r. length r = length (csv_header body)) (csv_data body))"

text \<open>Modelled from the spec: column types are inferred from the data; a field is an
  integer when it is a run of decimal digits, with a minus sign or without
  (\<^verbatim>\<open>pd.read_csv\<close> is missing).\<close>

definition is_digit :: "char \<Rightarrow> bool" where
  "is_digit c = (48 \<le> (of_char c :: nat) \<and> (of_char c :: nat) \<le> 57)"

text \<open>Modelled from the spec: the value of a run of decimal digits
  (\<^verbatim>\<open>pd.read_csv\<close> is missing).\<close>

definition digits_value :: "string \<Rightarrow> int" where
  "digits_value s = foldl (\<lambda>a c. 10 * a + int (of_char c - 48)) 0 s"

text \<open>Modelled from the spec: the integer that a field denotes, if it denotes one
  (\<^verbatim>\<open>pd.read_csv\<close> is missing).\<close>

definition int_text :: "string \<Rightarrow> int option" where
  "int_text s =
     (case s of
        [] \<Rightarrow> None
      | c # cs \<Rightarrow>
          if c = CHR ''-'' then
            (if cs \<noteq> [] \<and> list_all is_digit cs then Some (- digits_value cs) else None)
          else if list_all is_digit (c # cs) then Some (digits_value (c # cs))
          else None)"

text \<open>Modelled from the spec: a column is an integer column when every data row has an
  integer in it (\<^verbatim>\<open>pd.read_csv\<close> is missing).\<close>

definition int_column :: "string list list \<Rightarrow> nat \<Rightarrow> bool" where
  "int_column data j = list_all (\<lambda>r. int_text (r ! j) \<noteq> None) data"

text \<open>Modelled from the spec: the cells of a data row, typed by their columns; the rows
  are as long as the header when this is used (\<^verbatim>\<open>pd.read_csv\<close> is missing).\<close>

definition typed_row :: "string list list \<Rightarrow> string list \<Rightarrow> cell list" where
  "typed_row data r =
     map (\<lambda>(j, s).
            if int_column data j
            then (case int_text s of Some n \<Rightarrow> IntCell n | None \<Rightarrow> StrCell s)
            else StrCell s)
       (zip [0..<length r] r)"

text \<open>Modelled from the spec: parsing a body. An empty body is not a CSV document
  (\<^verbatim>\<open>EmptyDataError\<close>), a row of another length than the header is malformed
  (\<^verbatim>\<open>ParserError\<close>), and otherwise the table has the header as its columns and one row
  for each data row (\<^verbatim>\<open>pd.read_csv\<close> is missing).\<close>

definition spec_parse_csv :: "string \<Rightarrow> py_exc + dataframe" where
  "spec_parse_csv body =
     (case csv_records body of
        [] \<Rightarrow> Inl (Exc EmptyDataError ''No columns to parse from file'' None)
      | header # data \<Rightarrow>
          if list_all (\<lambda>r. length r = length header) data
          then Inr \<lparr>columns = header, rows = map (typed_row data) data\<rparr>
          else Inl (Exc ParserError ''Error tokenizing data'' None))"

text \<open>Modelled from the spec: download and parse in one step; a failure of the download
  is raised as it is (\<^verbatim>\<open>pd.read_csv\<close> is missing).\<close>

definition spec_read_csv :: "(string \<Rightarrow> py_exc + string) \<Rightarrow> string \<Rightarrow> py_exc + dataframe" where
  "spec_read_csv fetch URL =
     (case fetch URL of Inl e \<Rightarrow> Inl e | Inr body \<Rightarrow> spec_parse_csv body)"

text \<open>The resource of the specification's example scenario, and a world that reads it.\<close>

definition example_resource :: "string \<Rightarrow> py_exc + string" where
  "example_resource URL =
     (if URL = ''https://example.com/data.csv'' then Inr ''a,b\<newline>1,2\<newline>3,4''
      else Inl connection_refused)"

definition example_web :: world where
  "example_web = farm_db\<lparr>read_csv := spec_read_csv example_resource\<rparr>"

text \<open>
  A server that answers with an HTML page, a document of the wrong content type, and a
  world that reads it with the reader above.
\<close>

definition html_resource :: "string \<Rightarrow> py_exc + string" where
  "html_resource URL =
     (if URL = ''https://example.com/index.html'' then Inr ''<html>\<newline><body>Not Found</body>\<newline></html>''
      else Inl connection_refused)"

definition html_web :: world where
  "html_web = farm_db\<lparr>read_csv := spec_read_csv html_resource\<rparr>"

section \<open>Properties\<close>

lemma instance_of_Exception: "isinstance e Exception"
proof -
  have "Exception \<in> set (mro c)" for c
    by (induction c) simp_all
  then show ?thesis
    by (simp add: isinstance_def)
qed

text \<open>
  C1. A query that completes with zero rows makes \<open>query_data\<close> raise the \<^verbatim>\<open>ValueError\<close>
  with the message ``The query returned an empty DataFrame.'', and every table that
  \<open>query_data\<close> returns has at least one row.
\<close>

theorem query_data_empty_raises:
  "(connect w engine = Inr c \<and> read_sql_query w sql_query c = Inr df \<and> rows df = []
      \<longrightarrow> fst (query_data w engine sql_query) =
            Inl (Exc ValueError ''The query returned an empty DataFrame.'' None))
   \<and> (fst (query_data w engine sql_query) = Inr df' \<longrightarrow> rows df' \<noteq> [])"
proof (intro conjI impI)
  assume "connect w engine = Inr c \<and> read_sql_query w sql_query c = Inr df \<and> rows df = []"
  then show "fst (query_data w engine sql_query) =
      Inl (Exc ValueError ''The query returned an empty DataFrame.'' None)"
    by (simp add: query_data_def query_data_except_def df_empty_def isinstance_def Let_def)
next
  assume "fst (query_data w engine sql_query) = Inr df'"
  then show "rows df' \<noteq> []"
    by (auto simp: query_data_def query_data_except_def df_empty_def Let_def
        split: sum.splits if_splits)
qed

theorem query_data_empty_raises_witness:
  "fst (query_data farm_db farm_engine ''SELECT * FROM geographic_features WHERE 1=0'') =
     Inl (Exc ValueError ''The query returned an empty DataFrame.'' None)
   \<and> fst (query_data farm_db farm_engine ''SELECT * FROM geographic_features'') = Inr two_fields
   \<and> rows two_fields \<noteq> []"
proof -
  have empty: "connect farm_db farm_engine = Inr (Connection 0)
      \<and> read_sql_query farm_db ''SELECT * FROM geographic_features WHERE 1=0'' (Connection 0)
          = Inr no_fields
      \<and> rows no_fields = []"
    by (simp add: farm_db_def no_fields_def)
  have full: "fst (query_data farm_db farm_engine ''SELECT * FROM geographic_features'')
      = Inr two_fields"
    by (simp add: query_data_def farm_db_def two_fields_def df_empty_def Let_def)
  from empty full
    query_data_empty_raises [of farm_db farm_engine "Connection 0"
      "''SELECT * FROM geographic_features WHERE 1=0''" no_fields]
    query_data_empty_raises [of farm_db farm_engine _ "''SELECT * FROM geographic_features''" _
      two_fields]
  show ?thesis by simp
qed

text \<open>
  C2. On a machine without the PostgreSQL driver \<^verbatim>\<open>create_engine\<close> raises
  \<^verbatim>\<open>ModuleNotFoundError\<close>, an \<^verbatim>\<open>ImportError\<close>. \<open>create_db_engine\<close> logs the error record
  that asks for the installation, and then raises \<^verbatim>\<open>UnboundLocalError\<close> for the name
  \<^verbatim>\<open>e\<close>: the caller does not receive the import error, which is left as the context of
  the exception it does receive.
\<close>

theorem create_db_engine_import_error_unbound:
  "create_engine no_drivers ''postgresql://survey@db.example.com/farm'' = Inl psycopg2_missing
   \<and> isinstance psycopg2_missing ImportError
   \<and> create_db_engine no_drivers ''postgresql://survey@db.example.com/farm'' =
       (Inl (Exc UnboundLocalError
               ''cannot access local variable 'e' where it is not associated with a value''
               (Some psycopg2_missing)),
        [Log ERROR ''SQLAlchemy is required to use this function. Please install it first.''])
   \<and> \<not> isinstance (unbound_local_e psycopg2_missing) ImportError"
  by (simp add: create_db_engine_def create_db_engine_except_def no_drivers_def farm_db_def
      psycopg2_missing_def isinstance_def unbound_local_e_def logger_error_def)

text \<open>
  C3, as stated, fails: when reading the rows raises a \<^verbatim>\<open>ValueError\<close> (a value that
  cannot be converted), the clause \<^verbatim>\<open>except ValueError\<close> handles it, the clause that also
  handles the error of the empty frame. The call raises a \<^verbatim>\<open>ValueError\<close> and logs
  ``SQL query failed'', not ``An error occurred while querying the database''.
\<close>

theorem query_data_value_error_counterexample:
  "read_sql_query coercion_db ''SELECT * FROM weather_features'' (Connection 0) =
     Inl could_not_convert
   \<and> query_data coercion_db farm_engine ''SELECT * FROM weather_features'' =
       (Inl could_not_convert,
        [Connected (Connection 0), Closed (Connection 0),
         Log ERROR ''SQL query failed. Error: could not convert string to float: 'n/a' ''])
   \<and> isinstance could_not_convert ValueError
   \<and> snd (query_data coercion_db farm_engine ''SELECT * FROM weather_features'') \<noteq>
       [Connected (Connection 0), Closed (Connection 0),
        Log ERROR (''An error occurred while querying the database. Error: ''
          @ exc_str could_not_convert)]"
  by (simp add: query_data_def query_data_except_def coercion_db_def farm_db_def
      could_not_convert_def isinstance_def logger_error_def)

text \<open>
  C3, amended. When opening the connection or executing the query raises \<open>e\<close>,
  \<open>query_data\<close> raises \<open>e\<close> itself and logs one error record: ``An error occurred while
  querying the database. Error: \<open>e\<close>'' when \<open>e\<close> is not a \<^verbatim>\<open>ValueError\<close>, and ``SQL query
  failed. Error: \<open>e\<close>'' when it is one.
\<close>

theorem query_data_execution_error:
  assumes "connect w engine = Inl e
           \<or> (connect w engine = Inr c \<and> read_sql_query w sql_query c = Inl e)"
  shows "fst (query_data w engine sql_query) = Inl e
         \<and> log_lines (snd (query_data w engine sql_query)) =
             [(ERROR,
               (if isinstance e ValueError then ''SQL query failed. Error: ''
                else ''An error occurred while querying the database. Error: '') @ exc_str e)]"
  using assms
  by (auto simp: query_data_def query_data_except_def logger_error_def instance_of_Exception)

theorem query_data_execution_error_witness:
  "fst (query_data misspelt_db farm_engine ''SELECT * FROM geographic_feature'') =
     Inl no_such_table
   \<and> log_lines (snd (query_data misspelt_db farm_engine ''SELECT * FROM geographic_feature'')) =
       [(ERROR, ''An error occurred while querying the database. Error: ''
           @ ''(sqlite3.OperationalError) no such table: geographic_feature'')]
   \<and> fst (query_data missing_db farm_engine ''SELECT * FROM geographic_features'') =
       Inl unable_to_open
   \<and> fst (query_data coercion_db farm_engine ''SELECT * FROM weather_features'') =
       Inl could_not_convert
   \<and> log_lines (snd (query_data coercion_db farm_engine ''SELECT * FROM weather_features'')) =
       [(ERROR, ''SQL query failed. Error: could not convert string to float: 'n/a' '')]"
proof -
  have a: "connect misspelt_db farm_engine = Inr (Connection 0)
      \<and> read_sql_query misspelt_db ''SELECT * FROM geographic_feature'' (Connection 0)
          = Inl no_such_table"
    by (simp add: misspelt_db_def farm_db_def)
  have b: "connect missing_db farm_engine = Inl unable_to_open"
    by (simp add: missing_db_def farm_db_def)
  have c: "connect coercion_db farm_engine = Inr (Connection 0)
      \<and> read_sql_query coercion_db ''SELECT * FROM weather_features'' (Connection 0)
          = Inl could_not_convert"
    by (simp add: coercion_db_def farm_db_def)
  have d: "\<not> isinstance no_such_table ValueError" "isinstance could_not_convert ValueError"
    "exc_str no_such_table = ''(sqlite3.OperationalError) no such table: geographic_feature''"
    "exc_str could_not_convert = ''could not convert string to float: 'n/a' ''"
    by (simp_all add: isinstance_def no_such_table_def could_not_convert_def OperationalError_def)
  from d
    query_data_execution_error [of misspelt_db farm_engine no_such_table "Connection 0"
      "''SELECT * FROM geographic_feature''"]
    query_data_execution_error [of missing_db farm_engine unable_to_open "Connection 0"
      "''SELECT * FROM geographic_features''"]
    query_data_execution_error [of coercion_db farm_engine could_not_convert "Connection 0"
      "''SELECT * FROM weather_features''"]
    a b c
  show ?thesis by simp
qed

text \<open>
  C4, as stated, fails: for a query with no rows \<open>query_data\<close> logs two error records,
  one before it raises the \<^verbatim>\<open>ValueError\<close> and one in the clause that catches it.
\<close>

theorem query_data_empty_logs_twice_counterexample:
  "log_lines (snd (query_data farm_db farm_engine ''SELECT * FROM geographic_features WHERE 1=0''))
     = [(ERROR, ''The query returned an empty DataFrame.''),
        (ERROR, ''SQL query failed. Error: The query returned an empty DataFrame.'')]"
  by (simp add: query_data_def query_data_except_def farm_db_def no_fields_def df_empty_def
      isinstance_def logger_error_def Let_def)

text \<open>
  C4, amended. \<open>create_db_engine\<close> and \<open>read_from_web_CSV\<close> log exactly one record in every
  call, at level \<^verbatim>\<open>INFO\<close> when they return and at level \<^verbatim>\<open>ERROR\<close> when they raise.
  \<open>query_data\<close> logs one \<^verbatim>\<open>INFO\<close> record when it returns, one \<^verbatim>\<open>ERROR\<close> record when opening
  the connection or executing the query raises, and two \<^verbatim>\<open>ERROR\<close> records when the query
  yields an empty frame.
\<close>

theorem log_records_per_call:
  "log_levels (snd (create_db_engine w db_path)) =
     [if isl (fst (create_db_engine w db_path)) then ERROR else INFO]
   \<and> log_levels (snd (read_from_web_CSV w URL)) =
     [if isl (fst (read_from_web_CSV w URL)) then ERROR else INFO]
   \<and> log_levels (snd (query_data w engine sql_query)) =
     (if query_yields_empty w engine sql_query then [ERROR, ERROR]
      else [if isl (fst (query_data w engine sql_query)) then ERROR else INFO])"
proof -
  have "log_levels (snd (create_db_engine w db_path)) =
     [if isl (fst (create_db_engine w db_path)) then ERROR else INFO]"
    by (simp add: create_db_engine_def create_db_engine_except_def log_levels_def
        logger_error_def logger_info_def instance_of_Exception split: sum.splits)
  moreover have "log_levels (snd (read_from_web_CSV w URL)) =
     [if isl (fst (read_from_web_CSV w URL)) then ERROR else INFO]"
    by (simp add: read_from_web_CSV_def read_from_web_CSV_except_def log_levels_def
        logger_error_def logger_info_def instance_of_Exception split: sum.splits)
  moreover have "log_levels (snd (query_data w engine sql_query)) =
     (if query_yields_empty w engine sql_query then [ERROR, ERROR]
      else [if isl (fst (query_data w engine sql_query)) then ERROR else INFO])"
    by (simp add: query_data_def query_data_except_def query_yields_empty_def log_levels_def
        logger_error_def logger_info_def instance_of_Exception Let_def split: sum.splits)
  ultimately show ?thesis by simp
qed

lemma html_records:
  "csv_records ''<html>\<newline><body>Not Found</body>\<newline></html>'' = [[''<html>''], [''<body>Not Found</body>''], [''</html>'']]"
  by (simp add: csv_records_def)

text \<open>
  C5, as stated, fails: a resource of the wrong content type need not make the reader
  raise. The lines of an HTML page without commas are records of one field, so the reader
  returns a table of one column, and \<open>read_from_web_CSV\<close> returns it with the \<^verbatim>\<open>INFO\<close>
  record: it does not raise and does not log the message that asks to check the URL.
\<close>

theorem read_from_web_CSV_html_counterexample:
  "html_resource ''https://example.com/index.html'' =
     Inr ''<html>\<newline><body>Not Found</body>\<newline></html>''
   \<and> read_from_web_CSV html_web ''https://example.com/index.html'' =
       (Inr \<lparr>columns = [''<html>''],
              rows = [[StrCell ''<body>Not Found</body>''], [StrCell ''</html>'']]\<rparr>,
        [Log INFO ''CSV file read successfully from the web.''])
   \<and> \<not> isl (fst (read_from_web_CSV html_web ''https://example.com/index.html''))
   \<and> snd (read_from_web_CSV html_web ''https://example.com/index.html'') \<noteq>
       [Log ERROR
          ''The URL does not point to a valid CSV file. Please check the URL and try again.'']"
  by (simp add: read_from_web_CSV_def html_web_def farm_db_def spec_read_csv_def
      html_resource_def spec_parse_csv_def html_records typed_row_def int_column_def
      int_text_def is_digit_def logger_info_def)

text \<open>
  C5, amended. When the reader raises \<^verbatim>\<open>EmptyDataError\<close>, its report that the document at the URL
  holds no CSV data, \<open>read_from_web_CSV\<close> logs the message that asks to check the URL and
  raises that error. When the reader raises anything else (no connection, a timeout, rows
  that cannot be parsed), it logs ``Failed to read CSV from the web. Error: \<open>e\<close>'' and
  raises that error.
\<close>

theorem read_from_web_CSV_failure:
  assumes "read_csv w URL = Inl e"
  shows "read_from_web_CSV w URL =
           (Inl e,
            [Log ERROR
              (if isinstance e EmptyDataError
               then ''The URL does not point to a valid CSV file. Please check the URL and try again.''
               else ''Failed to read CSV from the web. Error: '' @ exc_str e)])"
  using assms
  by (simp add: read_from_web_CSV_def read_from_web_CSV_except_def logger_error_def
      instance_of_Exception)

theorem read_from_web_CSV_failure_witness:
  "read_from_web_CSV web ''https://example.com/empty.csv'' =
     (Inl no_columns,
      [Log ERROR ''The URL does not point to a valid CSV file. Please check the URL and try again.''])
   \<and> read_from_web_CSV web ''https://example.org/missing.csv'' =
     (Inl connection_refused,
      [Log ERROR (''Failed to read CSV from the web. Error: ''
         @ ''<urlopen error [Errno 111] Connection refused>'')])"
proof -
  have a: "read_csv web ''https://example.com/empty.csv'' = Inl no_columns"
    and b: "read_csv web ''https://example.org/missing.csv'' = Inl connection_refused"
    by (simp_all add: web_def farm_db_def)
  have c: "isinstance no_columns EmptyDataError" "\<not> isinstance connection_refused EmptyDataError"
    "exc_str connection_refused = ''<urlopen error [Errno 111] Connection refused>''"
    by (simp_all add: isinstance_def no_columns_def connection_refused_def)
  from c read_from_web_CSV_failure [OF a] read_from_web_CSV_failure [OF b]
  show ?thesis by simp
qed

text \<open>
  C7. When \<open>create_db_engine\<close> returns, it has made the engine, opened one connection and
  released it, logged one \<^verbatim>\<open>INFO\<close> record, in this order, and it returns the engine; it
  returns in no other way. When making the engine or opening the connection raises an
  exception \<open>e\<close> that is not an \<^verbatim>\<open>ImportError\<close>, it logs ``Failed to create database engine.
  Error: \<open>e\<close>'' and raises \<open>e\<close>.
\<close>

theorem create_db_engine_probe:
  "(create_engine w db_path = Inr engine \<and> connect w engine = Inr c
      \<longrightarrow> create_db_engine w db_path =
            (Inr engine,
             [Connected c, Closed c, Log INFO ''Database engine created successfully.'']))
   \<and> (fst (create_db_engine w db_path) = Inr engine'
      \<longrightarrow> create_engine w db_path = Inr engine'
          \<and> (\<exists>c'. connect w engine' = Inr c'
                \<and> snd (create_db_engine w db_path) =
                    [Connected c', Closed c', Log INFO ''Database engine created successfully.'']))
   \<and> ((create_engine w db_path = Inl e
        \<or> (create_engine w db_path = Inr engine \<and> connect w engine = Inl e))
       \<and> \<not> isinstance e ImportError
      \<longrightarrow> create_db_engine w db_path =
            (Inl e, [Log ERROR (''Failed to create database engine. Error: '' @ exc_str e)]))"
proof (intro conjI impI)
  assume "create_engine w db_path = Inr engine \<and> connect w engine = Inr c"
  then show "create_db_engine w db_path =
      (Inr engine, [Connected c, Closed c, Log INFO ''Database engine created successfully.''])"
    by (simp add: create_db_engine_def logger_info_def)
next
  assume r: "fst (create_db_engine w db_path) = Inr engine'"
  then show "create_engine w db_path = Inr engine'"
    by (auto simp: create_db_engine_def create_db_engine_except_def
        split: sum.splits if_splits)
  from r show "\<exists>c'. connect w engine' = Inr c'
      \<and> snd (create_db_engine w db_path) =
          [Connected c', Closed c', Log INFO ''Database engine created successfully.'']"
    by (auto simp: create_db_engine_def create_db_engine_except_def logger_info_def
        split: sum.splits if_splits)
next
  assume "(create_engine w db_path = Inl e
        \<or> (create_engine w db_path = Inr engine \<and> connect w engine = Inl e))
       \<and> \<not> isinstance e ImportError"
  then show "create_db_engine w db_path =
      (Inl e, [Log ERROR (''Failed to create database engine. Error: '' @ exc_str e)])"
    by (auto simp: create_db_engine_def create_db_engine_except_def logger_error_def
        instance_of_Exception)
qed

theorem create_db_engine_probe_witness:
  "create_db_engine farm_db ''sqlite:///Maji_Ndogo_farm_survey_small.db'' =
     (Inr farm_engine,
      [Connected (Connection 0), Closed (Connection 0),
       Log INFO ''Database engine created successfully.''])
   \<and> create_db_engine missing_db ''sqlite:///nowhere/farm.db'' =
     (Inl unable_to_open,
      [Log ERROR (''Failed to create database engine. Error: ''
         @ ''(sqlite3.OperationalError) unable to open database file'')])"
proof -
  have a: "create_engine farm_db ''sqlite:///Maji_Ndogo_farm_survey_small.db'' = Inr farm_engine
      \<and> connect farm_db farm_engine = Inr (Connection 0)"
    by (simp add: farm_db_def farm_engine_def)
  have b: "(create_engine missing_db ''sqlite:///nowhere/farm.db'' = Inl unable_to_open
        \<or> (create_engine missing_db ''sqlite:///nowhere/farm.db''
              = Inr (Engine ''sqlite:///nowhere/farm.db'')
            \<and> connect missing_db (Engine ''sqlite:///nowhere/farm.db'') = Inl unable_to_open))
       \<and> \<not> isinstance unable_to_open ImportError"
    by (simp add: missing_db_def farm_db_def isinstance_def unable_to_open_def
        OperationalError_def)
  have c: "exc_str unable_to_open = ''(sqlite3.OperationalError) unable to open database file''"
    by (simp add: unable_to_open_def)
  have p: "create_db_engine farm_db ''sqlite:///Maji_Ndogo_farm_survey_small.db'' =
     (Inr farm_engine,
      [Connected (Connection 0), Closed (Connection 0),
       Log INFO ''Database engine created successfully.''])"
    by (rule conjunct1 [OF create_db_engine_probe, THEN mp, OF a])
  have q: "create_db_engine missing_db ''sqlite:///nowhere/farm.db'' =
     (Inl unable_to_open,
      [Log ERROR (''Failed to create database engine. Error: '' @ exc_str unable_to_open)])"
    by (rule conjunct2 [OF conjunct2 [OF create_db_engine_probe], THEN mp, OF b])
  show ?thesis
    unfolding p q c by simp
qed

text \<open>
  C8. Every call of \<open>query_data\<close> leaves no connection open. When the connection opens, it
  is released next, before any log record and so before the call returns or raises; for
  an empty frame the release comes before the two error records and the \<^verbatim>\<open>ValueError\<close>.
  When the connection does not open, there is none to release.
\<close>

theorem query_data_releases_connection:
  "open_connections [] (snd (query_data w engine sql_query)) = []
   \<and> (connect w engine = Inr c
      \<longrightarrow> take 2 (snd (query_data w engine sql_query)) = [Connected c, Closed c]
          \<and> connection_events (snd (query_data w engine sql_query)) = [Connected c, Closed c])
   \<and> (connect w engine = Inr c \<and> read_sql_query w sql_query c = Inr df \<and> df_empty df
      \<longrightarrow> query_data w engine sql_query =
            (Inl (Exc ValueError ''The query returned an empty DataFrame.'' None),
             [Connected c, Closed c,
              Log ERROR ''The query returned an empty DataFrame.'',
              Log ERROR ''SQL query failed. Error: The query returned an empty DataFrame.'']))
   \<and> (connect w engine = Inl e
      \<longrightarrow> connection_events (snd (query_data w engine sql_query)) = [])"
proof (intro conjI impI)
  show "open_connections [] (snd (query_data w engine sql_query)) = []"
    by (simp add: query_data_def query_data_except_def logger_error_def logger_info_def
        instance_of_Exception Let_def split: sum.splits)
next
  assume c: "connect w engine = Inr c"
  then show "take 2 (snd (query_data w engine sql_query)) = [Connected c, Closed c]"
    by (simp add: query_data_def query_data_except_def logger_error_def logger_info_def
        instance_of_Exception Let_def split: sum.splits)
  from c show "connection_events (snd (query_data w engine sql_query)) = [Connected c, Closed c]"
    by (simp add: query_data_def query_data_except_def logger_error_def logger_info_def
        instance_of_Exception Let_def split: sum.splits)
next
  assume "connect w engine = Inr c \<and> read_sql_query w sql_query c = Inr df \<and> df_empty df"
  then show "query_data w engine sql_query =
      (Inl (Exc ValueError ''The query returned an empty DataFrame.'' None),
       [Connected c, Closed c,
        Log ERROR ''The query returned an empty DataFrame.'',
        Log ERROR ''SQL query failed. Error: The query returned an empty DataFrame.''])"
    by (simp add: query_data_def query_data_except_def logger_error_def isinstance_def Let_def)
next
  assume "connect w engine = Inl e"
  then show "connection_events (snd (query_data w engine sql_query)) = []"
    by (simp add: query_data_def query_data_except_def logger_error_def instance_of_Exception)
qed

theorem query_data_releases_connection_witness:
  "open_connections []
     (snd (query_data farm_db farm_engine ''SELECT * FROM geographic_features'')) = []
   \<and> take 2 (snd (query_data misspelt_db farm_engine ''SELECT * FROM geographic_feature'')) =
       [Connected (Connection 0), Closed (Connection 0)]
   \<and> query_data farm_db farm_engine ''SELECT * FROM geographic_features WHERE 1=0'' =
       (Inl (Exc ValueError ''The query returned an empty DataFrame.'' None),
        [Connected (Connection 0), Closed (Connection 0),
         Log ERROR ''The query returned an empty DataFrame.'',
         Log ERROR ''SQL query failed. Error: The query returned an empty DataFrame.''])
   \<and> connection_events
         (snd (query_data missing_db farm_engine ''SELECT * FROM geographic_features'')) = []"
proof -
  have a: "connect misspelt_db farm_engine = Inr (Connection 0)"
    by (simp add: misspelt_db_def farm_db_def)
  have b: "connect farm_db farm_engine = Inr (Connection 0)
      \<and> read_sql_query farm_db ''SELECT * FROM geographic_features WHERE 1=0'' (Connection 0)
          = Inr no_fields
      \<and> df_empty no_fields"
    by (simp add: farm_db_def no_fields_def df_empty_def)
  have c: "connect missing_db farm_engine = Inl unable_to_open"
    by (simp add: missing_db_def farm_db_def)
  note t = query_data_releases_connection
  have "open_connections []
      (snd (query_data farm_db farm_engine ''SELECT * FROM geographic_features'')) = []"
    by (rule conjunct1 [OF t])
  moreover have "take 2 (snd (query_data misspelt_db farm_engine ''SELECT * FROM geographic_feature''))
      = [Connected (Connection 0), Closed (Connection 0)]"
    by (rule conjunct1 [OF conjunct1 [OF conjunct2 [OF t], THEN mp, OF a]])
  moreover have "query_data farm_db farm_engine ''SELECT * FROM geographic_features WHERE 1=0'' =
       (Inl (Exc ValueError ''The query returned an empty DataFrame.'' None),
        [Connected (Connection 0), Closed (Connection 0),
         Log ERROR ''The query returned an empty DataFrame.'',
         Log ERROR ''SQL query failed. Error: The query returned an empty DataFrame.''])"
    by (rule conjunct1 [OF conjunct2 [OF conjunct2 [OF t]], THEN mp, OF b])
  moreover have "connection_events
      (snd (query_data missing_db farm_engine ''SELECT * FROM geographic_features'')) = []"
    by (rule conjunct2 [OF conjunct2 [OF conjunct2 [OF t]], THEN mp, OF c])
  ultimately show ?thesis by (intro conjI)
qed

text \<open>
  Outside the clause \<^verbatim>\<open>except ImportError\<close> every exception that a library call raises
  reaches the caller as it is.
\<close>

lemma library_errors_reraised:
  "read_csv w URL = Inl e \<Longrightarrow> fst (read_from_web_CSV w URL) = Inl e"
  "connect w engine = Inl e \<Longrightarrow> fst (query_data w engine sql_query) = Inl e"
  "connect w engine = Inr c \<Longrightarrow> read_sql_query w sql_query c = Inl e
     \<Longrightarrow> fst (query_data w engine sql_query) = Inl e"
  "create_engine w db_path = Inl e \<Longrightarrow> \<not> isinstance e ImportError
     \<Longrightarrow> fst (create_db_engine w db_path) = Inl e"
  "create_engine w db_path = Inr engine \<Longrightarrow> connect w engine = Inl e
     \<Longrightarrow> \<not> isinstance e ImportError \<Longrightarrow> fst (create_db_engine w db_path) = Inl e"
  by (simp_all add: read_from_web_CSV_def read_from_web_CSV_except_def query_data_def
      query_data_except_def create_db_engine_def create_db_engine_except_def
      instance_of_Exception)

text \<open>
  C9. On a machine without the MySQL driver \<^verbatim>\<open>create_engine\<close> raises
  \<^verbatim>\<open>ModuleNotFoundError\<close>, and \<open>create_db_engine\<close> does not pass it on: the caller receives
  another exception, an \<^verbatim>\<open>UnboundLocalError\<close>, which has the import error as its context
  only.
\<close>

theorem create_db_engine_import_error_replaced:
  "create_engine no_drivers ''mysql://survey@db.example.com/farm'' = Inl mysqldb_missing
   \<and> fst (create_db_engine no_drivers ''mysql://survey@db.example.com/farm'') =
       Inl (unbound_local_e mysqldb_missing)
   \<and> unbound_local_e mysqldb_missing \<noteq> mysqldb_missing
   \<and> class_of (unbound_local_e mysqldb_missing) = UnboundLocalError
   \<and> exc_context (unbound_local_e mysqldb_missing) = Some mysqldb_missing"
  by (simp add: create_db_engine_def create_db_engine_except_def no_drivers_def farm_db_def
      mysqldb_missing_def isinstance_def unbound_local_e_def)

text \<open>
  C10. \<open>read_from_web_CSV\<close> does not look at its argument: whenever the reader returns a
  table for it, URL or not, the function returns that table and logs the \<^verbatim>\<open>INFO\<close> record,
  and two arguments on which the reader does the same are processed the same.
\<close>

theorem read_from_web_CSV_any_argument:
  "(read_csv w arg = Inr df
      \<longrightarrow> read_from_web_CSV w arg =
            (Inr df, [Log INFO ''CSV file read successfully from the web.'']))
   \<and> (read_csv w arg = read_csv w arg'
      \<longrightarrow> read_from_web_CSV w arg = read_from_web_CSV w arg')"
  by (simp add: read_from_web_CSV_def logger_info_def)

theorem read_from_web_CSV_any_argument_witness:
  "read_from_web_CSV web ''data/Weather_station_data.csv'' =
     (Inr weather, [Log INFO ''CSV file read successfully from the web.''])
   \<and> read_from_web_CSV web ''data/Weather_station_data.csv'' =
       read_from_web_CSV web ''https://example.com/Weather_station_data.csv''"
proof -
  have a: "read_csv web ''data/Weather_station_data.csv'' = Inr weather"
    by (simp add: web_def farm_db_def)
  have b: "read_csv web ''data/Weather_station_data.csv'' =
      read_csv web ''https://example.com/Weather_station_data.csv''"
    by (simp add: web_def farm_db_def)
  note t = read_from_web_CSV_any_argument
  have "read_from_web_CSV web ''data/Weather_station_data.csv'' =
      (Inr weather, [Log INFO ''CSV file read successfully from the web.''])"
    by (rule conjunct1 [OF t, THEN mp, OF a])
  moreover have "read_from_web_CSV web ''data/Weather_station_data.csv'' =
      read_from_web_CSV web ''https://example.com/Weather_station_data.csv''"
    by (rule conjunct2 [OF t, THEN mp, OF b])
  ultimately show ?thesis by (intro conjI)
qed

lemma example_records:
  "csv_records ''a,b\<newline>1,2\<newline>3,4'' = [[''a'', ''b''], [''1'', ''2''], [''3'', ''4'']]"
  by (simp add: csv_records_def)

text \<open>
  C6. With the reader of the specification, for every URL whose resource is well-formed
  CSV text \<open>read_from_web_CSV\<close> returns a table whose columns are the header row and that
  has one row for each data row; for the resource \<^verbatim>\<open>a,b\n1,2\n3,4\<close> it returns the table
  of two rows and two columns with \<open>a = 1, b = 2\<close> and \<open>a = 3, b = 4\<close>.
\<close>

theorem read_from_web_CSV_well_formed:
  "(fetch URL = Inr body \<and> well_formed_csv body \<and> read_csv w = spec_read_csv fetch
      \<longrightarrow> (\<exists>df. read_from_web_CSV w URL =
                  (Inr df, [Log INFO ''CSV file read successfully from the web.''])
               \<and> columns df = csv_header body
               \<and> length (rows df) = length (csv_data body)))
   \<and> read_from_web_CSV example_web ''https://example.com/data.csv'' =
       (Inr \<lparr>columns = [''a'', ''b''],
              rows = [[IntCell 1, IntCell 2], [IntCell 3, IntCell 4]]\<rparr>,
        [Log INFO ''CSV file read successfully from the web.''])"
proof (intro conjI impI)
  assume "fetch URL = Inr body \<and> well_formed_csv body \<and> read_csv w = spec_read_csv fetch"
  then show "\<exists>df. read_from_web_CSV w URL =
                  (Inr df, [Log INFO ''CSV file read successfully from the web.''])
               \<and> columns df = csv_header body
               \<and> length (rows df) = length (csv_data body)"
    by (auto simp: read_from_web_CSV_def spec_read_csv_def spec_parse_csv_def
        well_formed_csv_def csv_header_def csv_data_def logger_info_def split: list.splits)
next
  show "read_from_web_CSV example_web ''https://example.com/data.csv'' =
       (Inr \<lparr>columns = [''a'', ''b''],
              rows = [[IntCell 1, IntCell 2], [IntCell 3, IntCell 4]]\<rparr>,
        [Log INFO ''CSV file read successfully from the web.''])"
    by (simp add: read_from_web_CSV_def example_web_def farm_db_def spec_read_csv_def
        example_resource_def spec_parse_csv_def example_records typed_row_def int_column_def
        int_text_def is_digit_def digits_value_def logger_info_def upt_rec)
qed

theorem read_from_web_CSV_well_formed_witness:
  "well_formed_csv ''a,b\<newline>1,2\<newline>3,4''
   \<and> (\<exists>df. read_from_web_CSV example_web ''https://example.com/data.csv'' =
              (Inr df, [Log INFO ''CSV file read successfully from the web.''])
           \<and> columns df = [''a'', ''b'']
           \<and> length (rows df) = 2)"
proof -
  have h: "example_resource ''https://example.com/data.csv'' = Inr ''a,b\<newline>1,2\<newline>3,4''
      \<and> well_formed_csv ''a,b\<newline>1,2\<newline>3,4''
      \<and> read_csv example_web = spec_read_csv example_resource"
    by (simp add: example_resource_def well_formed_csv_def csv_header_def csv_data_def
        example_records example_web_def farm_db_def)
  have k: "csv_header ''a,b\<newline>1,2\<newline>3,4'' = [''a'', ''b'']"
    "length (csv_data ''a,b\<newline>1,2\<newline>3,4'') = 2"
    by (simp_all add: csv_header_def csv_data_def example_records)
  from conjunct1 [OF read_from_web_CSV_well_formed, THEN mp, OF h]
  obtain df where "read_from_web_CSV example_web ''https://example.com/data.csv'' =
      (Inr df, [Log INFO ''CSV file read successfully from the web.''])"
    and "columns df = csv_header ''a,b\<newline>1,2\<newline>3,4''"
    and "length (rows df) = length (csv_data ''a,b\<newline>1,2\<newline>3,4'')"
    by blast
  with k have "\<exists>df. read_from_web_CSV example_web ''https://example.com/data.csv'' =
              (Inr df, [Log INFO ''CSV file read successfully from the web.''])
           \<and> columns df = [''a'', ''b'']
           \<and> length (rows df) = 2"
    by auto
  with h show ?thesis by (intro conjI) blast+
qed

end
